theory Spec2Isabelle
  imports Main
begin

section \<open>Strings and the regular expressions of the audit\<close>

text \<open>
  The legacy-JavaScript audit works on the text of scripts. A JavaScript string is
  modelled as a \<^typ>\<open>string\<close>: a list of code units, restricted to the range
  \<open>0..255\<close>. Indices, \<open>length\<close>, \<open>take\<close> and \<open>drop\<close> are those of the source.
\<close>

definition CR :: char where
  "CR = CHR 0x0D"

definition LF :: char where
  "LF = CHR 0x0A"

definition is_line_term :: "char \<Rightarrow> bool" where
  \<comment> \<open>the line terminators a \<open>.\<close> refuses (U+2028 and U+2029 lie outside the modelled range)\<close>
  "is_line_term c = (c = LF \<or> c = CR)"

definition is_space :: "char \<Rightarrow> bool" where
  \<comment> \<open>\<open>\s\<close>: tab, LF, VT, FF, CR, space, no-break space\<close>
  "is_space c = (c \<in> set [CHR 0x09, CHR 0x0A, CHR 0x0B, CHR 0x0C, CHR 0x0D, CHR 0x20, CHR 0xA0])"

definition BS :: char where
  \<comment> \<open>the backslash\<close>
  "BS = CHR 0x5C"

definition DQ :: char where
  \<comment> \<open>the double quote\<close>
  "DQ = CHR 0x22"

definition SQ :: char where
  \<comment> \<open>the single quote\<close>
  "SQ = CHR 0x27"

definition is_digit :: "char \<Rightarrow> bool" where
  "is_digit c = (c \<in> set ''0123456789'')"

subsection \<open>Syntax trees\<close>

text \<open>
  The fragment of the RegExp pattern language that the audit's expressions use (flag
  \<open>g\<close> only): literal characters, \<open>.\<close>, character classes with \<open>\s\<close> and \<open>\S\<close>,
  the assertions \<open>^\<close> and \<open>$\<close>, capturing and non-capturing groups, alternation and the
  greedy quantifiers \<open>*\<close>, \<open>+\<close>, \<open>?\<close>.
\<close>

datatype citem = CChar char | CSpace | CNonSpace

datatype regex =
    Lit char
  | Dot
  | Cls bool "citem list"
  | Bol
  | Eol
  | Eps
  | Grp nat regex
  | NGrp regex
  | Seq regex regex
  | Alt regex regex
  | Star regex
  | Plus regex
  | Opt regex

fun mk_seq :: "regex list \<Rightarrow> regex" where
  "mk_seq [] = Eps"
| "mk_seq [a] = a"
| "mk_seq (a # b # as) = Seq a (mk_seq (b # as))"

fun mk_alt :: "regex list \<Rightarrow> regex" where
  "mk_alt [] = Eps"
| "mk_alt [a] = a"
| "mk_alt (a # b # as) = Alt a (mk_alt (b # as))"

definition close_group :: "regex list \<Rightarrow> regex list \<Rightarrow> regex" where
  \<comment> \<open>the finished alternatives and the current sequence, both newest first\<close>
  "close_group alts sq = mk_alt (rev (mk_seq (rev sq) # alts))"

fun is_quantified :: "regex \<Rightarrow> bool" where
  "is_quantified (Star r) = True"
| "is_quantified (Plus r) = True"
| "is_quantified (Opt r) = True"
| "is_quantified Bol = True"
| "is_quantified Eol = True"
| "is_quantified r = False"

definition quantify :: "(regex \<Rightarrow> regex) \<Rightarrow> regex list \<Rightarrow> regex list option" where
  \<comment> \<open>a quantifier applies to the last atom; nothing to repeat is a SyntaxError, and a
      quantifier after a quantifier (lazy matching) is outside the fragment\<close>
  "quantify q sq =
     (case sq of
        [] \<Rightarrow> None
      | a # rest \<Rightarrow> if is_quantified a then None else Some (q a # rest))"

definition is_syntax_char :: "char \<Rightarrow> bool" where
  "is_syntax_char c = (c = BS \<or> c \<in> set ''^$.*+?()[]{}|/-'')"

definition escape_atom :: "char \<Rightarrow> regex option" where
  "escape_atom e =
     (if e = CHR ''s'' then Some (Cls False [CSpace])
      else if e = CHR ''S'' then Some (Cls False [CNonSpace])
      else if is_syntax_char e then Some (Lit e)
      else None)"

definition escape_citem :: "char \<Rightarrow> citem option" where
  "escape_citem e =
     (if e = CHR ''s'' then Some CSpace
      else if e = CHR ''S'' then Some CNonSpace
      else if is_syntax_char e then Some (CChar e)
      else None)"

type_synonym pframe = "nat option \<times> regex list \<times> regex list"

subsection \<open>\<open>new RegExp(source, 'g')\<close>\<close>

text \<open>
  The parser reads the pattern source from left to right, one character at a time. Its
  state is a mode (what the characters just read leave pending), the stack of the open
  groups (each with its kind, its finished alternatives and its current sequence), the
  finished alternatives and the current sequence of the innermost group (newest first),
  and the number of capturing groups opened so far. Capturing groups are numbered from
  1 in the order of their opening parenthesis. A \<open>{\<close> that does not begin a braced
  quantifier is a literal, and so are \<open>}\<close> and \<open>]\<close> outside a class.

  The mode \<open>Failed\<close> stands for a SyntaxError of the constructor, or for a construct
  outside the fragment above (backreferences, lookaround, ranges, braced and lazy
  quantifiers, other escapes).
\<close>

datatype ckind =
    KOpen | KClose | KBar | KStar | KPlus | KQuest | KDot | KCaret | KDollar
  | KBackslash | KLBracket | KRBracket | KLBrace | KMinus | KPlain

definition kind_of :: "char \<Rightarrow> ckind" where
  "kind_of c =
     (if c = CHR ''('' then KOpen
      else if c = CHR '')'' then KClose
      else if c = CHR ''|'' then KBar
      else if c = CHR ''*'' then KStar
      else if c = CHR ''+'' then KPlus
      else if c = CHR ''?'' then KQuest
      else if c = CHR ''.'' then KDot
      else if c = CHR ''^'' then KCaret
      else if c = CHR ''$'' then KDollar
      else if c = BS then KBackslash
      else if c = CHR ''['' then KLBracket
      else if c = CHR '']'' then KRBracket
      else if c = CHR ''{'' then KLBrace
      else if c = CHR ''-'' then KMinus
      else KPlain)"

datatype pmode =
    Normal
  | Esc
  | Open
  | OpenQ
  | Brack
  | Brace
  | Class bool "citem list"
  | ClassEsc bool "citem list"
  | Failed

datatype pstate = PState pmode "pframe list" "regex list" "regex list" nat

definition group_node :: "nat option \<Rightarrow> regex \<Rightarrow> regex" where
  "group_node g r = (case g of None \<Rightarrow> NGrp r | Some i \<Rightarrow> Grp i r)"

definition quantified :: "(regex \<Rightarrow> regex) \<Rightarrow> pframe list \<Rightarrow> regex list \<Rightarrow> regex list \<Rightarrow> nat \<Rightarrow> pstate" where
  "quantified q stk alts sq ng =
     (case quantify q sq of
        None \<Rightarrow> PState Failed stk alts sq ng
      | Some sq' \<Rightarrow> PState Normal stk alts sq' ng)"

fun normal_step ::
  "ckind \<Rightarrow> char \<Rightarrow> pframe list \<Rightarrow> regex list \<Rightarrow> regex list \<Rightarrow> nat \<Rightarrow> pstate" where
  "normal_step KOpen c stk alts sq ng = PState Open stk alts sq ng"
| "normal_step KClose c [] alts sq ng = PState Failed [] alts sq ng"
| "normal_step KClose c ((g, alts', sq') # stk) alts sq ng =
     PState Normal stk alts' (group_node g (close_group alts sq) # sq') ng"
| "normal_step KBar c stk alts sq ng = PState Normal stk (mk_seq (rev sq) # alts) [] ng"
| "normal_step KStar c stk alts sq ng = quantified Star stk alts sq ng"
| "normal_step KPlus c stk alts sq ng = quantified Plus stk alts sq ng"
| "normal_step KQuest c stk alts sq ng = quantified Opt stk alts sq ng"
| "normal_step KDot c stk alts sq ng = PState Normal stk alts (Dot # sq) ng"
| "normal_step KCaret c stk alts sq ng = PState Normal stk alts (Bol # sq) ng"
| "normal_step KDollar c stk alts sq ng = PState Normal stk alts (Eol # sq) ng"
| "normal_step KBackslash c stk alts sq ng = PState Esc stk alts sq ng"
| "normal_step KLBracket c stk alts sq ng = PState Brack stk alts sq ng"
| "normal_step KLBrace c stk alts sq ng = PState Brace stk alts (Lit c # sq) ng"
| "normal_step KRBracket c stk alts sq ng = PState Normal stk alts (Lit c # sq) ng"
| "normal_step KMinus c stk alts sq ng = PState Normal stk alts (Lit c # sq) ng"
| "normal_step KPlain c stk alts sq ng = PState Normal stk alts (Lit c # sq) ng"

fun class_step ::
  "ckind \<Rightarrow> char \<Rightarrow> bool \<Rightarrow> citem list \<Rightarrow> pframe list \<Rightarrow> regex list \<Rightarrow> regex list \<Rightarrow> nat
     \<Rightarrow> pstate" where
  "class_step KRBracket c neg items stk alts sq ng =
     PState Normal stk alts (Cls neg (rev items) # sq) ng"
| "class_step KBackslash c neg items stk alts sq ng = PState (ClassEsc neg items) stk alts sq ng"
| "class_step KMinus c neg items stk alts sq ng = PState Failed stk alts sq ng"
| "class_step k c neg items stk alts sq ng = PState (Class neg (CChar c # items)) stk alts sq ng"

definition escaped :: "char \<Rightarrow> pframe list \<Rightarrow> regex list \<Rightarrow> regex list \<Rightarrow> nat \<Rightarrow> pstate" where
  "escaped e stk alts sq ng =
     (case escape_atom e of
        None \<Rightarrow> PState Failed stk alts sq ng
      | Some a \<Rightarrow> PState Normal stk alts (a # sq) ng)"

definition class_escaped ::
  "char \<Rightarrow> bool \<Rightarrow> citem list \<Rightarrow> pframe list \<Rightarrow> regex list \<Rightarrow> regex list \<Rightarrow> nat \<Rightarrow> pstate" where
  "class_escaped e neg items stk alts sq ng =
     (case escape_citem e of
        None \<Rightarrow> PState Failed stk alts sq ng
      | Some it \<Rightarrow> PState (Class neg (it # items)) stk alts sq ng)"

fun step :: "pstate \<Rightarrow> char \<Rightarrow> pstate" where
  "step (PState Normal stk alts sq ng) c = normal_step (kind_of c) c stk alts sq ng"
| "step (PState Esc stk alts sq ng) c = escaped c stk alts sq ng"
| "step (PState Open stk alts sq ng) c =
     (if c = CHR ''?'' then PState OpenQ stk alts sq ng
      else normal_step (kind_of c) c ((Some (Suc ng), alts, sq) # stk) [] [] (Suc ng))"
| "step (PState OpenQ stk alts sq ng) c =
     (if c = CHR '':'' then PState Normal ((None, alts, sq) # stk) [] [] ng
      else PState Failed stk alts sq ng)"
| "step (PState Brack stk alts sq ng) c =
     (if c = CHR ''^'' then PState (Class True []) stk alts sq ng
      else class_step (kind_of c) c False [] stk alts sq ng)"
| "step (PState Brace stk alts sq ng) c =
     (if is_digit c then PState Failed stk alts sq ng
      else normal_step (kind_of c) c stk alts sq ng)"
| "step (PState (Class neg items) stk alts sq ng) c =
     class_step (kind_of c) c neg items stk alts sq ng"
| "step (PState (ClassEsc neg items) stk alts sq ng) c = class_escaped c neg items stk alts sq ng"
| "step (PState Failed stk alts sq ng) c = PState Failed stk alts sq ng"

fun finish :: "pstate \<Rightarrow> regex option" where
  "finish (PState Normal [] alts sq ng) = Some (close_group alts sq)"
| "finish (PState Brace [] alts sq ng) = Some (close_group alts sq)"
| "finish st = None"

definition regexp_new :: "string \<Rightarrow> regex option" where
  "regexp_new src = finish (foldl step (PState Normal [] [] [] 0) src)"

fun count_groups :: "regex \<Rightarrow> nat" where
  "count_groups (Grp i r) = Suc (count_groups r)"
| "count_groups (NGrp r) = count_groups r"
| "count_groups (Seq r1 r2) = count_groups r1 + count_groups r2"
| "count_groups (Alt r1 r2) = count_groups r1 + count_groups r2"
| "count_groups (Star r) = count_groups r"
| "count_groups (Plus r) = count_groups r"
| "count_groups (Opt r) = count_groups r"
| "count_groups r = 0"

fun group_ids :: "regex \<Rightarrow> nat list" where
  "group_ids (Grp i r) = i # group_ids r"
| "group_ids (NGrp r) = group_ids r"
| "group_ids (Seq r1 r2) = group_ids r1 @ group_ids r2"
| "group_ids (Alt r1 r2) = group_ids r1 @ group_ids r2"
| "group_ids (Star r) = group_ids r"
| "group_ids (Plus r) = group_ids r"
| "group_ids (Opt r) = group_ids r"
| "group_ids r = []"

subsection \<open>Backtracking matcher\<close>

text \<open>
  \<open>ms n r s cp\<close> lists, in the order in which the backtracking matcher of the language
  tries them, the ways in which \<open>r\<close> matches a prefix of the remaining input \<open>s\<close>: each
  result is the input left over and the captures. \<open>n\<close> is the length of the whole input,
  so \<open>^\<close> holds exactly where nothing has been consumed before. The match that \<open>exec\<close>
  reports is the first of the list. An iteration of \<open>*\<close> or \<open>?\<close> that consumes nothing
  is rejected, and the captures of the groups inside a quantified atom are reset at the
  start of each iteration.
\<close>

type_synonym caps = "(nat \<times> string) list"

fun citem_ok :: "citem \<Rightarrow> char \<Rightarrow> bool" where
  "citem_ok (CChar c) x = (x = c)"
| "citem_ok CSpace x = is_space x"
| "citem_ok CNonSpace x = (\<not> is_space x)"

definition cls_ok :: "bool \<Rightarrow> citem list \<Rightarrow> char \<Rightarrow> bool" where
  "cls_ok neg items x = (list_ex (\<lambda>i. citem_ok i x) items \<noteq> neg)"

definition clear :: "regex \<Rightarrow> caps \<Rightarrow> caps" where
  "clear r cp = filter (\<lambda>(i, t). i \<notin> set (group_ids r)) cp"

fun rweight :: "regex \<Rightarrow> nat" where
  "rweight (Grp i r) = Suc (rweight r)"
| "rweight (NGrp r) = Suc (rweight r)"
| "rweight (Seq r1 r2) = Suc (rweight r1 + rweight r2)"
| "rweight (Alt r1 r2) = Suc (rweight r1 + rweight r2)"
| "rweight (Star r) = Suc (rweight r)"
| "rweight (Plus r) = Suc (Suc (rweight r))"
| "rweight (Opt r) = Suc (rweight r)"
| "rweight r = 0"

function ms :: "nat \<Rightarrow> regex \<Rightarrow> string \<Rightarrow> caps \<Rightarrow> (string \<times> caps) list" where
  "ms n (Lit c) s cp = (case s of [] \<Rightarrow> [] | x # t \<Rightarrow> if x = c then [(t, cp)] else [])"
| "ms n Dot s cp = (case s of [] \<Rightarrow> [] | x # t \<Rightarrow> if is_line_term x then [] else [(t, cp)])"
| "ms n (Cls neg items) s cp =
     (case s of [] \<Rightarrow> [] | x # t \<Rightarrow> if cls_ok neg items x then [(t, cp)] else [])"
| "ms n Bol s cp = (if length s = n then [(s, cp)] else [])"
| "ms n Eol s cp = (if s = [] then [(s, cp)] else [])"
| "ms n Eps s cp = [(s, cp)]"
| "ms n (Grp i r) s cp =
     map (\<lambda>(s', cp'). (s', (i, take (length s - length s') s) # cp')) (ms n r s cp)"
| "ms n (NGrp r) s cp = ms n r s cp"
| "ms n (Seq r1 r2) s cp = concat (map (\<lambda>(s', cp'). ms n r2 s' cp') (ms n r1 s cp))"
| "ms n (Alt r1 r2) s cp = ms n r1 s cp @ ms n r2 s cp"
| "ms n (Star r) s cp =
     concat (map (\<lambda>(s', cp'). if length s' < length s then ms n (Star r) s' cp' else [])
                 (ms n r s (clear r cp)))
     @ [(s, cp)]"
| "ms n (Plus r) s cp =
     concat (map (\<lambda>(s', cp'). ms n (Star r) s' cp') (ms n r s (clear r cp)))"
| "ms n (Opt r) s cp =
     filter (\<lambda>(s', cp'). length s' < length s) (ms n r s (clear r cp)) @ [(s, cp)]"
  by pat_completeness auto
termination
  by (relation "measures [\<lambda>(n, r, s, cp). rweight r, \<lambda>(n, r, s, cp). length s]") auto


subsection \<open>\<open>RegExp.prototype.exec\<close> with the flag \<open>g\<close>\<close>

text \<open>
  \<open>exec\<close> looks for the first index at or after \<open>lastIndex\<close> where the expression
  matches, and reports that index, the index just past the match (the new \<open>lastIndex\<close>)
  and the captures; \<open>None\<close> is the \<open>null\<close> of the source.
\<close>

fun search :: "regex \<Rightarrow> nat \<Rightarrow> string \<Rightarrow> nat \<Rightarrow> (nat \<times> nat \<times> caps) option" where
  "search r n [] i =
     (case ms n r [] [] of [] \<Rightarrow> None | (s', cp) # rest \<Rightarrow> Some (i, n - length s', cp))"
| "search r n (x # t) i =
     (case ms n r (x # t) [] of
        [] \<Rightarrow> search r n t (Suc i)
      | (s', cp) # rest \<Rightarrow> Some (i, n - length s', cp))"

definition exec :: "regex \<Rightarrow> string \<Rightarrow> nat \<Rightarrow> (nat \<times> nat \<times> caps) option" where
  "exec r code lastIndex =
     (if length code < lastIndex then None
      else search r (length code) (drop lastIndex code) lastIndex)"

definition truthy :: "caps \<Rightarrow> nat \<Rightarrow> bool" where
  \<comment> \<open>a capture group is truthy when it took part in the match and captured a non-empty text\<close>
  "truthy cp g = (case map_of cp g of None \<Rightarrow> False | Some t \<Rightarrow> t \<noteq> [])"

section \<open>The pattern matcher\<close>

record pattern =
  pname :: string
  expression :: string
  estimateBytes :: "(string \<Rightarrow> int) option"

record PatternMatchResult =
  name :: string
  line :: int
  column :: int

record CodePatternMatcher =
  re :: regex
  patterns :: "pattern list"

fun join :: "string \<Rightarrow> string list \<Rightarrow> string" where
  "join sep [] = []"
| "join sep [x] = x"
| "join sep (x # y # ys) = x @ sep @ join sep (y # ys)"

definition patternsExpression :: "pattern list \<Rightarrow> string" where
  "patternsExpression ps = join ''|'' (map (\<lambda>p. ''('' @ expression p @ '')'') ps)"

definition matcher_source :: "pattern list \<Rightarrow> string" where
  "matcher_source ps = ''(^'' @ [CR, LF] @ ''|'' @ [CR] @ ''|'' @ [LF] @ '')|'' @ patternsExpression ps"

definition new_CodePatternMatcher :: "pattern list \<Rightarrow> CodePatternMatcher option" where
  \<comment> \<open>the constructor; \<open>None\<close> when \<open>new RegExp\<close> does not accept the joined expressions\<close>
  "new_CodePatternMatcher ps =
     (case regexp_new (matcher_source ps) of
        None \<Rightarrow> None
      | Some r \<Rightarrow> Some \<lparr>re = r, patterns = ps\<rparr>)"

text \<open>
  The outcome of a call that may throw. In \<open>match\<close>, a match event in which no pattern
  group is truthy (or in which the truthy group is not the group of a pattern) reads
  \<open>name\<close> of \<open>undefined\<close>: a TypeError. A loop that \<open>exec\<close> does not move forward never
  ends: \<open>Diverges\<close>.
\<close>

datatype 'a outcome = Returns 'a | TypeError | Diverges

definition findIndex_truthy :: "caps \<Rightarrow> nat \<Rightarrow> nat option" where
  \<comment> \<open>\<open>patternExpressionMatches.findIndex(Boolean)\<close>: entry \<open>k\<close> is capture group \<open>k + 2\<close>\<close>
  "findIndex_truthy cp ngroups = List.find (\<lambda>k. truthy cp (k + 2)) [0 ..< ngroups - 1]"

text \<open>
  The body of the \<open>while\<close> loop of \<open>match\<close>, with the loop's variables as arguments:
  \<open>lastIndex\<close> of the expression, \<open>line\<close>, \<open>lineBeginsAtIndex\<close>, the set \<open>seen\<close> (the
  patterns, each one by its position in \<open>patterns\<close>) and \<open>matches\<close>.
\<close>

function match_loop ::
  "CodePatternMatcher \<Rightarrow> string \<Rightarrow> nat \<Rightarrow> int \<Rightarrow> nat \<Rightarrow> nat list \<Rightarrow> PatternMatchResult list
     \<Rightarrow> PatternMatchResult list outcome" where
  "match_loop m code lastIndex ln lineBeginsAtIndex seen matches =
     (case exec (re m) code lastIndex of
        None \<Rightarrow> Returns matches
      | Some (index, lastIndex', cp) \<Rightarrow>
          if truthy cp 1 then
            (if lastIndex < lastIndex'
             then match_loop m code lastIndex' (ln + 1) (index + 1) seen matches
             else Diverges)
          else
            (case findIndex_truthy cp (count_groups (re m)) of
               None \<Rightarrow> TypeError
             | Some k \<Rightarrow>
                 if length (patterns m) \<le> k then TypeError
                 else if lastIndex' \<le> lastIndex then Diverges
                 else if k \<in> set seen then
                   match_loop m code lastIndex' ln lineBeginsAtIndex seen matches
                 else
                   match_loop m code lastIndex' ln lineBeginsAtIndex (k # seen)
                     (matches @ [\<lparr>name = pname (patterns m ! k), line = ln,
                                  column = int index - int lineBeginsAtIndex\<rparr>])))"
  by pat_completeness auto
termination
  by (relation "measure (\<lambda>(m, code, lastIndex, ln, lb, seen, matches). Suc (length code) - lastIndex)")
     (auto simp: exec_def split: if_splits)

definition match :: "CodePatternMatcher \<Rightarrow> string \<Rightarrow> PatternMatchResult list outcome" where
  "match m code = match_loop m code 0 0 0 [] []"


section \<open>The pattern catalog\<close>

subsection \<open>String helpers of the language\<close>

fun starts_with :: "string \<Rightarrow> string \<Rightarrow> bool" where
  "starts_with s [] = True"
| "starts_with [] (p # ps) = False"
| "starts_with (x # xs) (p # ps) = (x = p \<and> starts_with xs ps)"

definition ends_with :: "string \<Rightarrow> string \<Rightarrow> bool" where
  "ends_with s p = starts_with (rev s) (rev p)"

fun str_includes :: "string \<Rightarrow> string \<Rightarrow> bool" where
  "str_includes [] p = (p = [])"
| "str_includes (x # xs) p = (starts_with (x # xs) p \<or> str_includes xs p)"

fun split_acc :: "char \<Rightarrow> string \<Rightarrow> string \<Rightarrow> string list" where
  "split_acc sep [] cur = [rev cur]"
| "split_acc sep (x # xs) cur =
     (if x = sep then rev cur # split_acc sep xs [] else split_acc sep xs (x # cur))"

definition str_split :: "string \<Rightarrow> char \<Rightarrow> string list" where
  \<comment> \<open>\<open>s.split(sep)\<close> for a separator of one character\<close>
  "str_split s sep = split_acc sep s []"

fun replace_first :: "string \<Rightarrow> string \<Rightarrow> string \<Rightarrow> string" where
  \<comment> \<open>\<open>s.replace(p, t)\<close> for a string \<open>p\<close>: the first occurrence only\<close>
  "replace_first [] p t = (if p = [] then t else [])"
| "replace_first (x # xs) p t =
     (if starts_with (x # xs) p then t @ drop (length p) (x # xs)
      else x # replace_first xs p t)"

fun count_skip :: "string \<Rightarrow> string \<Rightarrow> nat \<Rightarrow> nat" where
  \<comment> \<open>\<open>content.split(p).length - 1\<close> for a non-empty string \<open>p\<close>: the occurrences of \<open>p\<close>
      from left to right, none overlapping the one prior; \<open>k\<close> characters are still
      covered by the last occurrence\<close>
  "count_skip [] p k = 0"
| "count_skip (x # xs) p k =
     (if 0 < k then count_skip xs p (k - 1)
      else if starts_with (x # xs) p then Suc (count_skip xs p (length p - 1))
      else count_skip xs p 0)"

fun count_re_skip :: "regex \<Rightarrow> nat \<Rightarrow> string \<Rightarrow> nat \<Rightarrow> nat" where
  \<comment> \<open>\<open>(content.match(re) ?? []).length\<close> for an expression with the flag \<open>g\<close>: the
      matches from left to right, each search starting where the match prior ended (one
      further when that match was empty)\<close>
  "count_re_skip r n [] k =
     (if k = 0 \<and> ms n r [] [] \<noteq> [] then 1 else 0)"
| "count_re_skip r n (x # xs) k =
     (if 0 < k then count_re_skip r n xs (k - 1)
      else
        (case ms n r (x # xs) [] of
           [] \<Rightarrow> count_re_skip r n xs 0
         | (s', cp) # rest \<Rightarrow> Suc (count_re_skip r n xs (length xs - length s'))))"

subsection \<open>Polyfills\<close>

record PolyfillEntry =
  ename :: string
  modules :: "string list"
  corejs :: bool

definition qt :: "string \<Rightarrow> string" where
  "qt token = ''['' @ [SQ, DQ] @ '']'' @ token @ ''['' @ [SQ, DQ] @ '']''"

definition given :: "string option \<Rightarrow> bool" where
  \<comment> \<open>\<open>if (object)\<close>: neither \<open>null\<close> nor the empty string\<close>
  "given object = (case object of None \<Rightarrow> False | Some ob \<Rightarrow> ob \<noteq> [])"

definition buildPolyfillExpression :: "string option \<Rightarrow> string \<Rightarrow> string \<Rightarrow> string" where
  "buildPolyfillExpression object property coreJs3Module =
     (let ob = (case object of None \<Rightarrow> [] | Some x \<Rightarrow> x) in
      (if given object
       then ob @ [BS] @ ''.'' @ property @ [BS] @ ''s?=[^=]''
       else ''(?:window'' @ [BS] @ ''.|['' @ [BS] @ ''s;]+)'' @ property @ [BS] @ ''s?=[^=]'')
      @ (if given object
         then ''|'' @ ob @ [BS] @ ''['' @ qt property @ [BS] @ '']'' @ [BS] @ ''s?=[^=]''
         else [])
      @ ''|defineProperty'' @ [BS] @ ''('' @ (if given object then ob else ''window'')
          @ '','' @ [BS] @ ''s?'' @ qt property
      @ (if given object
         then ''|'' @ [BS] @ ''('' @ ob @ '','' @ [BS] @ ''s*{'' @ property @ '':.*},''
                @ [BS] @ ''s*{'' @ property
         else [])
      @ (if given object
         then ''|{target:'' @ qt (replace_first ob ''.prototype'' []) @ [BS] @ ''S*},{''
                @ property @ '':''
         else [])
      @ ''|core-js/modules/'' @ coreJs3Module @ [DQ])"

definition getCoreJsPolyfillData :: "PolyfillEntry list \<Rightarrow> (string \<times> string) list" where
  \<comment> \<open>\<open>(name, coreJs3Module)\<close>; \<open>modules[0]\<close> of an empty list is \<open>undefined\<close>, which the
      template of \<open>buildPolyfillExpression\<close> prints\<close>
  "getCoreJsPolyfillData polyfillModuleData =
     map (\<lambda>d. (ename d, (case modules d of [] \<Rightarrow> ''undefined'' | mo # rest \<Rightarrow> mo)))
         (filter corejs polyfillModuleData)"

definition getPolyfillPatterns :: "PolyfillEntry list \<Rightarrow> pattern list" where
  "getPolyfillPatterns polyfillModuleData =
     map (\<lambda>(nm, coreJs3Module).
            (let parts = str_split nm (CHR ''.'');
                 object = (if 1 < length parts then Some (join ''.'' (butlast parts)) else None);
                 property = last parts
             in \<lparr>pname = nm,
                 expression = buildPolyfillExpression object property coreJs3Module,
                 estimateBytes = None\<rparr>))
         (getCoreJsPolyfillData polyfillModuleData)"

subsection \<open>Transforms\<close>

definition regenerator_re :: regex where
  \<comment> \<open>\<open>/regeneratorRuntime\(?\)?\.a?wrap/g\<close>\<close>
  "regenerator_re =
     mk_seq (map Lit ''regeneratorRuntime'' @ [Opt (Lit (CHR ''('')), Opt (Lit (CHR '')'')),
             Lit (CHR ''.''), Opt (Lit (CHR ''a''))] @ map Lit ''wrap'')"

definition spread_re :: regex where
  \<comment> \<open>\<open>/\.apply\(void 0,\s?_toConsumableArray/g\<close>\<close>
  "spread_re =
     mk_seq ([Lit (CHR ''.'')] @ map Lit ''apply'' @ [Lit (CHR ''('')] @ map Lit ''void 0,''
             @ [Opt (Cls False [CSpace])] @ map Lit ''_toConsumableArray'')"

definition count_string :: "string \<Rightarrow> string \<Rightarrow> int" where
  "count_string content p = int (count_skip content p 0)"

definition count_regexp :: "string \<Rightarrow> regex \<Rightarrow> int" where
  "count_regexp content r = int (count_re_skip r (length content) content 0)"

definition getTransformPatterns :: "pattern list" where
  "getTransformPatterns =
     [\<lparr>pname = ''@babel/plugin-transform-classes'',
       expression = ''Cannot call a class as a function'',
       estimateBytes = Some (\<lambda>content.
         1000 + (count_string content ''_classCallCheck'' - 1) * int (length ''_classCallCheck()''))\<rparr>,
      \<lparr>pname = ''@babel/plugin-transform-regenerator'',
       expression = ''Generator is already running|regeneratorRuntime'',
       estimateBytes = Some (\<lambda>content. count_regexp content regenerator_re * 80)\<rparr>,
      \<lparr>pname = ''@babel/plugin-transform-spread'',
       expression = ''Invalid attempt to spread non-iterable instance'',
       estimateBytes = Some (\<lambda>content.
         1169 + count_regexp content spread_re * int (length ''_toConsumableArray()''))\<rparr>]"

definition audit_matcher :: "PolyfillEntry list \<Rightarrow> CodePatternMatcher option" where
  \<comment> \<open>the matcher that \<open>audit_\<close> builds: the polyfill patterns, then the transform patterns\<close>
  "audit_matcher polyfillModuleData =
     new_CodePatternMatcher (getPolyfillPatterns polyfillModuleData @ getTransformPatterns)"


section \<open>Detection across scripts\<close>

record Script =
  scriptId :: string
  url :: string
  content :: "string option"

record SourceMapEntry =
  sourceURL :: "string option"
  lineNumber :: int
  columnNumber :: int

text \<open>
  Of a bundle the audit reads the script's id, the sources listed by the raw source map
  and the entries that \<open>map.mappings()\<close> returns.
\<close>

record Bundle =
  script :: Script
  rawMap_sources :: "string list"
  map_mappings :: "SourceMapEntry list"

definition has_content :: "Script \<Rightarrow> bool" where
  \<comment> \<open>\<open>script.content\<close> is truthy: present and not the empty string\<close>
  "has_content s = (case content s of None \<Rightarrow> False | Some c \<Rightarrow> c \<noteq> [])"

definition module_in_source :: "string \<Rightarrow> string \<Rightarrow> bool" where
  "module_in_source source mo =
     (ends_with source (''/'' @ mo @ ''.js'') \<or> str_includes source (''node_modules/'' @ mo @ ''/''))"

definition find_source :: "Bundle \<Rightarrow> string list \<Rightarrow> string option" where
  "find_source bundle mods =
     List.find (\<lambda>source. list_ex (module_in_source source) mods) (rawMap_sources bundle)"

definition located :: "Bundle \<Rightarrow> string \<Rightarrow> string \<Rightarrow> PatternMatchResult" where
  \<comment> \<open>the match pushed for a polyfill found through the source \<open>source\<close>\<close>
  "located bundle nm source =
     (case List.find (\<lambda>m. sourceURL m = Some source) (map_mappings bundle) of
        Some mapping \<Rightarrow> \<lparr>name = nm, line = lineNumber mapping, column = columnNumber mapping\<rparr>
      | None \<Rightarrow> \<lparr>name = nm, line = 0, column = 0\<rparr>)"

text \<open>The inner loop of \<open>detectAcrossScripts\<close> over the polyfill data, for one bundle.\<close>

fun correlate ::
  "Bundle \<Rightarrow> PolyfillEntry list \<Rightarrow> PatternMatchResult list \<Rightarrow> PatternMatchResult list" where
  "correlate bundle [] matches = matches"
| "correlate bundle (d # ds) matches =
     (if list_ex (\<lambda>m. name m = ename d) matches then correlate bundle ds matches
      else
        (case find_source bundle (modules d) of
           None \<Rightarrow> correlate bundle ds matches
         | Some source \<Rightarrow>
             if source = [] then correlate bundle ds matches
             else correlate bundle ds (matches @ [located bundle (ename d) source])))"

definition combined ::
  "PolyfillEntry list \<Rightarrow> Bundle list \<Rightarrow> Script \<Rightarrow> PatternMatchResult list
     \<Rightarrow> PatternMatchResult list" where
  \<comment> \<open>the match list of a script after the lookup of its bundle\<close>
  "combined polyfillData bundles s matches =
     (case List.find (\<lambda>b. scriptId (script b) = scriptId s) bundles of
        None \<Rightarrow> matches
      | Some bundle \<Rightarrow> correlate bundle polyfillData matches)"

text \<open>
  The loop over the scripts. The result map is the list of its entries in insertion
  order; the scripts of the input are distinct objects, so each \<open>set\<close> adds an entry.
\<close>

fun detect_loop ::
  "CodePatternMatcher \<Rightarrow> PolyfillEntry list \<Rightarrow> Bundle list \<Rightarrow> Script list
     \<Rightarrow> (Script \<times> PatternMatchResult list) list
     \<Rightarrow> (Script \<times> PatternMatchResult list) list outcome" where
  "detect_loop matcher polyfillData bundles [] acc = Returns acc"
| "detect_loop matcher polyfillData bundles (s # ss) acc =
     (case content s of
        None \<Rightarrow> detect_loop matcher polyfillData bundles ss acc
      | Some c \<Rightarrow>
          if c = [] then detect_loop matcher polyfillData bundles ss acc
          else
            (case match matcher c of
               TypeError \<Rightarrow> TypeError
             | Diverges \<Rightarrow> Diverges
             | Returns matches \<Rightarrow>
                 if combined polyfillData bundles s matches = []
                 then detect_loop matcher polyfillData bundles ss acc
                 else detect_loop matcher polyfillData bundles ss
                        (acc @ [(s, combined polyfillData bundles s matches)])))"

definition detectAcrossScripts ::
  "PolyfillEntry list \<Rightarrow> CodePatternMatcher \<Rightarrow> Script list \<Rightarrow> Bundle list
     \<Rightarrow> (Script \<times> PatternMatchResult list) list outcome" where
  \<comment> \<open>the first argument is the module's constant \<open>polyfillModuleData\<close>\<close>
  "detectAcrossScripts polyfillData matcher scripts bundles =
     detect_loop matcher polyfillData bundles scripts []"

section \<open>Estimation of the wasted bytes\<close>
















section \<open>The polyfill data\<close>

text \<open>
  Modelled from the spec: the data file \<open>polyfill-module-data.json\<close>, which
  \<open>getPolyfillModuleData\<close> returns, is not among the sources. The entries below are the
  two that the generator script \<open>create-polyfill-module-data.js\<close> writes by hand
  (without \<open>corejs\<close>), and the entries that the tests of the audit rely on: the names
  \<open>String.prototype.repeat\<close>, \<open>Array.prototype.forEach\<close>, \<open>String.raw\<close>,
  \<open>Object.entries\<close> and \<open>Array.prototype.findLast\<close>, the last one for the module
  \<open>es.array.find-last\<close> and for the module \<open>esnext.array.find-last\<close> (the generator
  names an entry after its module without the first part, one entry per module).
\<close>

definition polyfillModuleData :: "PolyfillEntry list" where
  "polyfillModuleData =
     [\<lparr>ename = ''focus-visible'', modules = [''focus-visible''], corejs = False\<rparr>,
      \<lparr>ename = ''Error.prototype.cause'', modules = [''es.error.cause''], corejs = False\<rparr>,
      \<lparr>ename = ''Array.prototype.findLast'', modules = [''es.array.find-last''], corejs = True\<rparr>,
      \<lparr>ename = ''Array.prototype.forEach'', modules = [''es.array.for-each''], corejs = True\<rparr>,
      \<lparr>ename = ''Object.entries'', modules = [''es.object.entries''], corejs = True\<rparr>,
      \<lparr>ename = ''String.prototype.repeat'', modules = [''es.string.repeat''], corejs = True\<rparr>,
      \<lparr>ename = ''String.raw'', modules = [''es.string.raw''], corejs = True\<rparr>,
      \<lparr>ename = ''Array.prototype.findLast'', modules = [''esnext.array.find-last''],
        corejs = True\<rparr>]"

definition scan :: "PolyfillEntry list \<Rightarrow> string \<Rightarrow> PatternMatchResult list outcome option" where
  \<comment> \<open>\<open>match\<close> of the matcher that the audit builds from the polyfill data; \<open>None\<close> when
      the constructor fails\<close>
  "scan polyfillData code = map_option (\<lambda>m. match m code) (audit_matcher polyfillData)"

subsection \<open>The estimate in the words of the specification\<close>



subsection \<open>A size graph and a script for the examples\<close>





section \<open>The behaviour in the words of the specification\<close>

subsection \<open>The entries of the result map\<close>

text \<open>
  The entry that a script contributes to the result of \<open>detectAcrossScripts\<close>: none
  when its content is missing or empty, or when its match list is empty.
\<close>

definition entry_of ::
  "PolyfillEntry list \<Rightarrow> CodePatternMatcher \<Rightarrow> Bundle list \<Rightarrow> Script
     \<Rightarrow> (Script \<times> PatternMatchResult list) option" where
  "entry_of polyfillData matcher bundles s =
     (case content s of
        None \<Rightarrow> None
      | Some c \<Rightarrow>
          if c = [] then None
          else
            (case match matcher c of
               Returns matches \<Rightarrow>
                 if combined polyfillData bundles s matches = [] then None
                 else Some (s, combined polyfillData bundles s matches)
             | TypeError \<Rightarrow> None
             | Diverges \<Rightarrow> None))"

subsection \<open>Correlation with the source map\<close>


definition correlated_source :: "Bundle \<Rightarrow> PolyfillEntry list \<Rightarrow> string \<Rightarrow> string option" where
  "correlated_source bundle polyfillData n =
     (case List.find (\<lambda>d. ename d = n \<and> find_source bundle (modules d) \<noteq> None) polyfillData of
        None \<Rightarrow> None
      | Some d \<Rightarrow> find_source bundle (modules d))"

subsection \<open>The events of a scan\<close>












subsection \<open>Patterns that cannot begin at a given character\<close>


fun nullable :: "regex \<Rightarrow> bool" where
  "nullable (Lit c) = False"
| "nullable Dot = False"
| "nullable (Cls neg items) = False"
| "nullable (Grp i r) = nullable r"
| "nullable (NGrp r) = nullable r"
| "nullable (Seq r1 r2) = (nullable r1 \<and> nullable r2)"
| "nullable (Alt r1 r2) = (nullable r1 \<or> nullable r2)"
| "nullable (Plus r) = nullable r"
| "nullable r = True"






subsection \<open>The patterns of the events, first occurrences\<close>



subsection \<open>Textual occurrences of a signature\<close>


section \<open>Data for the examples\<close>

text \<open>
  The matcher of the audit for given polyfill data, as a value (the constructor succeeds
  for the data used below).
\<close>

definition the_matcher :: "PolyfillEntry list \<Rightarrow> CodePatternMatcher" where
  "the_matcher polyfillData =
     (case audit_matcher polyfillData of
        None \<Rightarrow> \<lparr>re = Eps, patterns = []\<rparr>
      | Some m \<Rightarrow> m)"

definition entries_raw :: "PolyfillEntry list" where
  "entries_raw =
     [\<lparr>ename = ''Object.entries'', modules = [''es.object.entries''], corejs = True\<rparr>,
      \<lparr>ename = ''String.raw'', modules = [''es.string.raw''], corejs = True\<rparr>]"









definition scripts_w :: "Script list" where
  "scripts_w =
     [\<lparr>scriptId = ''1'', url = ''https://www.example.com/1.js'', content = None\<rparr>,
      \<lparr>scriptId = ''2'', url = ''https://www.example.com/2.js'', content = Some []\<rparr>,
      \<lparr>scriptId = ''3'', url = ''https://www.example.com/3.js'',
        content = Some ''var a = 1; String.raw = function() {}''\<rparr>,
      \<lparr>scriptId = ''4'', url = ''https://www.example.com/4.js'', content = Some ''var b = 2;''\<rparr>]"

text \<open>
  The equations of the loops are used where a proof names them, not by the simplifier.
\<close>

declare ms.simps(11) [simp del]

declare match_loop.simps [simp del]


section \<open>The regular expression literals of the transforms\<close>

text \<open>
  The two literals of \<open>getTransformPatterns\<close> are given above as syntax trees; they are
  what the parser makes of the source text of the literals.
\<close>

lemma regenerator_re_source:
  "regexp_new (''regeneratorRuntime'' @ [BS] @ ''(?'' @ [BS] @ '')?'' @ [BS] @ ''.a?wrap'')
     = Some regenerator_re"
  by code_simp

lemma spread_re_source:
  "regexp_new ([BS] @ ''.apply'' @ [BS] @ ''(void 0,'' @ [BS] @ ''s?_toConsumableArray'')
     = Some spread_re"
  by code_simp

section \<open>Detection on the snippets of the specification\<close>

text \<open>
  C1. With the matcher built from the polyfill data,
  \<open>String.prototype.repeat = function() {}\<close> gives exactly one match:
  the name \<open>String.prototype.repeat\<close> at line 0, column 0.
\<close>

theorem basic_detection:
  "scan polyfillModuleData ''String.prototype.repeat = function() {}'' =
     Some (Returns [\<lparr>name = ''String.prototype.repeat'', line = 0, column = 0\<rparr>])"
  by code_simp

lemma no_match_message:
  "scan polyfillModuleData
     (''var message = '' @ [DQ] @ ''hello world'' @ [DQ] @ ''; console.log(message);'')
   = Some (Returns [])"
  by code_simp

lemma no_match_someFn:
  "scan polyfillModuleData ''SomeClass.prototype.someFn = function() {}'' = Some (Returns [])"
  by code_simp

lemma no_match_defineProperty:
  "scan polyfillModuleData
     (''Object.defineProperty(SomeClass.prototype, '' @ [DQ] @ ''someFn'' @ [DQ]
        @ '', function() {})'')
   = Some (Returns [])"
  by code_simp

lemma no_match_SomeGlobal:
  "scan polyfillModuleData ''SomeGlobal = function() {}'' = Some (Returns [])"
  by code_simp

lemma no_match_typeof_Map:
  "scan polyfillModuleData
     (''var b=typeof Map==='' @ [DQ] @ ''function'' @ [DQ] @ ''?new Map():void 0'')
   = Some (Returns [])"
  by code_simp

lemma no_match_SomePromise:
  "scan [\<lparr>ename = ''Promise'', modules = [''es.promise''], corejs = True\<rparr>]
     ''SomePromise = function() {}''
   = Some (Returns [])"
  by code_simp

text \<open>
  C6. The five snippets of ordinary code of the specification give no match with the
  matcher built from the polyfill data, and with a polyfill entry for the global
  \<open>Promise\<close> the assignment \<open>SomePromise = function() {}\<close> gives no match either.
\<close>

theorem no_false_positives:
  "scan polyfillModuleData
     (''var message = '' @ [DQ] @ ''hello world'' @ [DQ] @ ''; console.log(message);'')
     = Some (Returns [])
   \<and> scan polyfillModuleData ''SomeClass.prototype.someFn = function() {}'' = Some (Returns [])
   \<and> scan polyfillModuleData
       (''Object.defineProperty(SomeClass.prototype, '' @ [DQ] @ ''someFn'' @ [DQ]
          @ '', function() {})'')
     = Some (Returns [])
   \<and> scan polyfillModuleData ''SomeGlobal = function() {}'' = Some (Returns [])
   \<and> scan polyfillModuleData
       (''var b=typeof Map==='' @ [DQ] @ ''function'' @ [DQ] @ ''?new Map():void 0'')
     = Some (Returns [])
   \<and> scan [\<lparr>ename = ''Promise'', modules = [''es.promise''], corejs = True\<rparr>]
       ''SomePromise = function() {}''
     = Some (Returns [])"
  using no_match_message no_match_someFn no_match_defineProperty no_match_SomeGlobal
    no_match_typeof_Map no_match_SomePromise
  by blast


section \<open>The estimate\<close>

























section \<open>Scripts without content, and the result map\<close>

lemma set_map_filter_iff: "y \<in> set (List.map_filter f xs) \<longleftrightarrow> (\<exists>x\<in>set xs. f x = Some y)"
  by (induction xs) (auto split: option.splits)

lemma detect_loop_Returns:
  "detect_loop m pd bs scripts acc = Returns out \<Longrightarrow>
   out = acc @ List.map_filter (entry_of pd m bs) scripts"
proof (induction scripts arbitrary: acc)
  case Nil
  then show ?case by simp
next
  case (Cons s ss)
  have "detect_loop m pd bs ss (acc @ (case entry_of pd m bs s of None \<Rightarrow> [] | Some e \<Rightarrow> [e]))
          = Returns out"
    using Cons.prems
    by (auto simp: entry_of_def split: option.splits if_splits outcome.splits)
  from Cons.IH[OF this] show ?case
    by (cases "entry_of pd m bs s") simp_all
qed

lemma detect_loop_skip:
  "\<not> has_content s \<Longrightarrow>
   detect_loop m pd bs (pre @ s # post) acc = detect_loop m pd bs (pre @ post) acc"
proof (induction pre arbitrary: acc)
  case Nil
  then show ?case by (auto simp: has_content_def split: option.splits)
next
  case (Cons p pre)
  then show ?case
    by (auto split: option.splits outcome.splits)
qed

lemma detect_loop_no_content:
  "\<forall>s\<in>set scripts. \<not> has_content s \<Longrightarrow> detect_loop m pd bs scripts acc = Returns acc"
  by (induction scripts arbitrary: acc) (auto simp: has_content_def split: option.splits)

lemma entry_of_Some:
  "entry_of pd m bs s = Some (s', ml) \<longleftrightarrow>
     s' = s \<and> ml \<noteq> [] \<and>
     (\<exists>c matches. content s = Some c \<and> c \<noteq> [] \<and> match m c = Returns matches
        \<and> ml = combined pd bs s matches)"
  by (auto simp: entry_of_def split: option.splits outcome.splits)

text \<open>
  C10. A script whose content is missing or empty changes nothing in the result of
  \<open>detectAcrossScripts\<close>, wherever it stands, and scripts without content alone give
  the empty map. When the call returns, its entries are those of the scripts with
  content whose combined match list is not empty: no entry has an empty list, and a
  script is a key exactly when it has content and its combined list is not empty.
\<close>

theorem detect_skips_empty:
  "(\<not> has_content s \<longrightarrow>
      detectAcrossScripts pd m (pre @ s # post) bs = detectAcrossScripts pd m (pre @ post) bs)
   \<and> ((\<forall>s\<in>set scripts. \<not> has_content s) \<longrightarrow> detectAcrossScripts pd m scripts bs = Returns [])
   \<and> (detectAcrossScripts pd m scripts bs = Returns out \<longrightarrow>
        out = List.map_filter (entry_of pd m bs) scripts
        \<and> (\<forall>(s, ml)\<in>set out. ml \<noteq> [] \<and> has_content s)
        \<and> (\<forall>s\<in>set scripts.
              (s \<in> fst ` set out) =
              (\<exists>c matches. content s = Some c \<and> c \<noteq> [] \<and> match m c = Returns matches
                 \<and> combined pd bs s matches \<noteq> [])))"
proof (intro conjI impI)
  assume "\<not> has_content s"
  then show "detectAcrossScripts pd m (pre @ s # post) bs = detectAcrossScripts pd m (pre @ post) bs"
    by (simp add: detectAcrossScripts_def detect_loop_skip)
next
  assume "\<forall>s\<in>set scripts. \<not> has_content s"
  then show "detectAcrossScripts pd m scripts bs = Returns []"
    by (simp add: detectAcrossScripts_def detect_loop_no_content)
next
  assume r: "detectAcrossScripts pd m scripts bs = Returns out"
  then show out: "out = List.map_filter (entry_of pd m bs) scripts"
    using detect_loop_Returns[of m pd bs scripts "[]" out] by (simp add: detectAcrossScripts_def)
  show "\<forall>(s, ml)\<in>set out. ml \<noteq> [] \<and> has_content s"
  proof (clarify)
    fix s ml assume "(s, ml) \<in> set out"
    then obtain x where "entry_of pd m bs x = Some (s, ml)"
      unfolding out set_map_filter_iff by blast
    then show "ml \<noteq> [] \<and> has_content s"
      unfolding entry_of_Some has_content_def by auto
  qed
  show "\<forall>s\<in>set scripts.
              (s \<in> fst ` set out) =
              (\<exists>c matches. content s = Some c \<and> c \<noteq> [] \<and> match m c = Returns matches
                 \<and> combined pd bs s matches \<noteq> [])"
  proof
    fix s assume s: "s \<in> set scripts"
    have "s \<in> fst ` set out \<longleftrightarrow> (\<exists>ml. (s, ml) \<in> set out)"
      by force
    also have "\<dots> \<longleftrightarrow> (\<exists>ml x. x \<in> set scripts \<and> entry_of pd m bs x = Some (s, ml))"
      unfolding out set_map_filter_iff by blast
    also have "\<dots> \<longleftrightarrow> (\<exists>ml. entry_of pd m bs s = Some (s, ml))"
      using s unfolding entry_of_Some by blast
    also have "\<dots> \<longleftrightarrow> (\<exists>c matches. content s = Some c \<and> c \<noteq> [] \<and> match m c = Returns matches
                 \<and> combined pd bs s matches \<noteq> [])"
      unfolding entry_of_Some by blast
    finally show "(s \<in> fst ` set out) =
              (\<exists>c matches. content s = Some c \<and> c \<noteq> [] \<and> match m c = Returns matches
                 \<and> combined pd bs s matches \<noteq> [])" .
  qed
qed

section \<open>Correlation\<close>

lemma starts_with_Nil: "starts_with [] p \<longleftrightarrow> p = []"
  by (cases p) auto

lemma module_in_source_Nil: "\<not> module_in_source [] mo"
  by (simp add: module_in_source_def ends_with_def starts_with_Nil)

lemma find_source_nonempty: "find_source bundle mods = Some source \<Longrightarrow> source \<noteq> []"
  by (auto simp: find_source_def find_Some_iff list_ex_iff module_in_source_Nil)


lemma correlate_append: "\<exists>added. correlate bundle ds matches = matches @ added"
proof (induction ds arbitrary: matches)
  case Nil
  then show ?case by simp
next
  case (Cons d ds)
  show ?case
  proof (cases "list_ex (\<lambda>m. name m = ename d) matches \<or> find_source bundle (modules d) = None")
    case True
    then show ?thesis using Cons.IH[of matches] by (auto split: option.splits)
  next
    case False
    then obtain source where s: "find_source bundle (modules d) = Some source" by auto
    then have ne: "source \<noteq> []" by (rule find_source_nonempty)
    from Cons.IH[of "matches @ [located bundle (ename d) source]"]
    show ?thesis using False s ne by auto
  qed
qed

lemma name_located [simp]: "name (located bundle n source) = n"
  by (simp add: located_def split: option.splits)




lemma correlated_source_distinct:
  assumes "d \<in> set ds" and "distinct (map ename ds)"
  shows "correlated_source bundle ds (ename d) = find_source bundle (modules d)"
  using assms
proof (induction ds)
  case Nil
  then show ?case by simp
next
  case (Cons x ds)
  show ?case
  proof (cases "x = d")
    case True
    then have "ename d \<notin> ename ` set ds" using Cons.prems(2) by simp
    then have "List.find (\<lambda>x. ename x = ename d \<and> find_source bundle (modules x) \<noteq> None) ds = None"
      unfolding find_None_iff by (metis imageI)
    then show ?thesis using True
      by (cases "find_source bundle (modules d)") (simp_all add: correlated_source_def)
  next
    case False
    then have "ename x \<noteq> ename d" using Cons.prems by auto
    then show ?thesis using Cons False by (auto simp: correlated_source_def)
  qed
qed

section \<open>The scan and its events\<close>






section \<open>Framing\<close>

lemma ms_length:
  "(s', cp') \<in> set (ms n r s cp) \<Longrightarrow> length s' \<le> length s"
proof (induction n r s cp arbitrary: s' cp' rule: ms.induct)
  case (7 n i r s cp)
  then show ?case by auto
next
  case (9 n r1 r2 s cp)
  from "9.prems" obtain s1 cp1 where 1: "(s1, cp1) \<in> set (ms n r1 s cp)"
    and 2: "(s', cp') \<in> set (ms n r2 s1 cp1)"
    by auto
  from "9.IH"(1)[OF 1] "9.IH"(2)[OF 1 refl 2] show ?case by simp
next
  case (11 n r s cp)
  from "11.prems" consider "(s', cp') = (s, cp)"
    | s1 cp1 where "(s1, cp1) \<in> set (ms n r s (clear r cp))" "length s1 < length s"
        "(s', cp') \<in> set (ms n (Star r) s1 cp1)"
    unfolding ms.simps(11)[of n r s cp] by (auto split: if_splits)
  then show ?case
  proof cases
    case 1
    then show ?thesis by simp
  next
    case 2
    from "11.IH"(2)[OF 2(1) refl 2(2) 2(3)] 2(2) show ?thesis by simp
  qed
next
  case (12 n r s cp)
  from "12.prems" obtain s1 cp1 where 1: "(s1, cp1) \<in> set (ms n r s (clear r cp))"
    and 2: "(s', cp') \<in> set (ms n (Star r) s1 cp1)"
    by auto
  from "12.IH"(1)[OF 1] "12.IH"(2)[OF 1 refl 2] show ?case by simp
next
  case (13 n r s cp)
  then show ?case by auto
qed (auto split: list.splits if_splits)




lemma ms_consumes:
  "\<not> nullable r \<Longrightarrow> (s', cp') \<in> set (ms n r s cp) \<Longrightarrow> length s' < length s"
proof (induction n r s cp arbitrary: s' cp' rule: ms.induct)
  case (7 n i r s cp)
  then show ?case by auto
next
  case (9 n r1 r2 s cp)
  from "9.prems"(2) obtain s1 cp1 where 1: "(s1, cp1) \<in> set (ms n r1 s cp)"
    and 2: "(s', cp') \<in> set (ms n r2 s1 cp1)"
    by auto
  have a: "length s1 \<le> length s" and b: "length s' \<le> length s1"
    using ms_length 1 2 by blast+
  from "9.prems"(1) consider "\<not> nullable r1" | "\<not> nullable r2" by auto
  then show ?case
  proof cases
    case 1
    from "9.IH"(1)[OF 1 \<open>(s1, cp1) \<in> set (ms n r1 s cp)\<close>] b show ?thesis by simp
  next
    case 2
    from "9.IH"(2)[OF \<open>(s1, cp1) \<in> set (ms n r1 s cp)\<close> refl 2 \<open>(s', cp') \<in> set (ms n r2 s1 cp1)\<close>] a
    show ?thesis by simp
  qed
next
  case (12 n r s cp)
  from "12.prems"(2) obtain s1 cp1 where 1: "(s1, cp1) \<in> set (ms n r s (clear r cp))"
    and 2: "(s', cp') \<in> set (ms n (Star r) s1 cp1)"
    by auto
  have "length s1 < length s" using "12.IH"(1)[OF _ 1] "12.prems"(1) by simp
  moreover have "length s' \<le> length s1" using ms_length 2 by blast
  ultimately show ?case by simp
qed (auto split: list.splits if_splits)




lemma ms_hd_consumes:
  "\<not> nullable r \<Longrightarrow> ms n r s cp = (s', cp') # list \<Longrightarrow> length s' < length s"
  using ms_consumes[of r s' cp' n s cp] by simp














section \<open>Matches per pattern, lines and columns, examples\<close>

lemma the_matcher_Some: "audit_matcher pd = Some m \<Longrightarrow> the_matcher pd = m"
  by (simp add: the_matcher_def)

lemma scan_the_matcher:
  "scan pd code = Some out \<Longrightarrow> match (the_matcher pd) code = out"
  by (auto simp: scan_def the_matcher_def)









lemma matcher_entries_raw:
  "(case audit_matcher entries_raw of None \<Rightarrow> False | Some m \<Rightarrow> True)"
  by code_simp


















lemma scripts_values:
  "detectAcrossScripts polyfillModuleData (the_matcher entries_raw) (drop 2 scripts_w) []
     = Returns [(scripts_w ! 2, [\<lparr>name = ''String.raw'', line = 0, column = 11\<rparr>])]"
  by code_simp

theorem detect_skips_empty_witness:
  "detectAcrossScripts polyfillModuleData (the_matcher entries_raw) scripts_w []
     = Returns [(scripts_w ! 2, [\<lparr>name = ''String.raw'', line = 0, column = 11\<rparr>])]
   \<and> detectAcrossScripts polyfillModuleData (the_matcher entries_raw) (take 2 scripts_w) []
     = Returns []"
proof -
  let ?pd = polyfillModuleData and ?m = "the_matcher entries_raw"
  have a: "\<not> has_content (scripts_w ! 0)" and b: "\<not> has_content (scripts_w ! 1)"
    by (simp_all add: scripts_w_def has_content_def)
  have "detectAcrossScripts ?pd ?m ([] @ scripts_w ! 0 # drop 1 scripts_w) []
          = detectAcrossScripts ?pd ?m ([] @ drop 1 scripts_w) []"
    using detect_skips_empty[of "scripts_w ! 0" ?pd ?m "[]" "drop 1 scripts_w" "[]"] a by blast
  moreover have "detectAcrossScripts ?pd ?m ([] @ scripts_w ! 1 # drop 2 scripts_w) []
          = detectAcrossScripts ?pd ?m ([] @ drop 2 scripts_w) []"
    using detect_skips_empty[of "scripts_w ! 1" ?pd ?m "[]" "drop 2 scripts_w" "[]"] b by blast
  moreover have "[] @ scripts_w ! 0 # drop 1 scripts_w = scripts_w"
    and "[] @ drop 1 scripts_w = [] @ scripts_w ! 1 # drop 2 scripts_w"
    by (simp_all add: scripts_w_def)
  ultimately have 1: "detectAcrossScripts ?pd ?m scripts_w []
     = Returns [(scripts_w ! 2, [\<lparr>name = ''String.raw'', line = 0, column = 11\<rparr>])]"
    using scripts_values by simp
  have "\<forall>s\<in>set (take 2 scripts_w). \<not> has_content s"
    by (simp add: scripts_w_def has_content_def)
  then have 2: "detectAcrossScripts ?pd ?m (take 2 scripts_w) [] = Returns []"
    using detect_skips_empty[of _ ?pd ?m _ _ "[]" "take 2 scripts_w"] by blast
  show ?thesis using 1 2 by simp
qed

end
